theory Spec2Isabelle
  imports Main "HOL-Library.Word"
begin

section \<open>JavaScript strings\<close>

text \<open>
  A JavaScript string is a sequence of UTF-16 code units. Room ids, message texts, the
  pending input and the location path are all such strings; \<open>===\<close> on two strings is
  equality of the two sequences, and a string is truthy exactly when it is not empty.
\<close>

type_synonym jsstring = "16 word list"

definition ascii :: "string \<Rightarrow> jsstring" where
  "ascii s = map (\<lambda>c. of_nat (of_char c)) s"

text \<open>
  \<open>String.prototype.trim\<close> removes WhiteSpace and LineTerminator code points from both
  ends. All of them lie in the Basic Multilingual Plane, so each is one code unit.
\<close>

definition isWhiteSpace :: "16 word \<Rightarrow> bool" where
  "isWhiteSpace c \<longleftrightarrow>
     c = 0x0009 \<or> c = 0x000B \<or> c = 0x000C \<or> c = 0x0020 \<or> c = 0x00A0 \<or> c = 0x1680 \<or>
     (0x2000 \<le> c \<and> c \<le> 0x200A) \<or> c = 0x202F \<or> c = 0x205F \<or> c = 0x3000 \<or> c = 0xFEFF"

definition isLineTerminator :: "16 word \<Rightarrow> bool" where
  "isLineTerminator c \<longleftrightarrow> c = 0x000A \<or> c = 0x000D \<or> c = 0x2028 \<or> c = 0x2029"

definition isTrimmed :: "16 word \<Rightarrow> bool" where
  "isTrimmed c \<longleftrightarrow> isWhiteSpace c \<or> isLineTerminator c"

definition trim :: "jsstring \<Rightarrow> jsstring" where
  "trim s = rev (dropWhile isTrimmed (rev (dropWhile isTrimmed s)))"

definition truthy :: "jsstring \<Rightarrow> bool" where
  "truthy s \<longleftrightarrow> s \<noteq> []"

text \<open>\<open>s.includes(t)\<close>: \<open>t\<close> occurs in \<open>s\<close> as a contiguous run, from some position on.\<close>

definition startsAt :: "jsstring \<Rightarrow> jsstring \<Rightarrow> bool" where
  "startsAt s t \<longleftrightarrow> take (length t) s = t"

fun includes_js :: "jsstring \<Rightarrow> jsstring \<Rightarrow> bool" where
  "includes_js [] t = (t = [])"
| "includes_js (c # cs) t = (startsAt (c # cs) t \<or> includes_js cs t)"

section \<open>Events and effects\<close>

text \<open>The two role strings, \<open>"asker"\<close> and \<open>"responder"\<close>.\<close>

datatype role = asker | responder

text \<open>An entry of the chat list, \<open>{ role, message }\<close> in the source.\<close>

record chat_entry =
  role :: role
  entry_message :: jsstring

text \<open>An entry of the rooms list sent by the server, \<open>{ id, latestMessage }\<close>.\<close>

record room =
  room_id :: jsstring
  latestMessage :: jsstring

text \<open>What the client hands to \<open>socket.emit\<close>.\<close>

datatype client_event =
    EmitGetMessages jsstring
  | EmitQuestion jsstring jsstring
  | EmitResponse jsstring jsstring
  | EmitTyping jsstring
  | EmitStopTyping jsstring
  | EmitGetRooms
  | EmitDeleteRoom jsstring

text \<open>What the socket delivers to the handlers registered with \<open>socket.on\<close>.\<close>

datatype server_event =
    ChatHistory "chat_entry list"
  | Question jsstring jsstring
  | Response jsstring jsstring
  | RoomDeleted jsstring
  | Typing
  | StopTyping
  | RoomsList "room list"
  | GetRooms

datatype logarg = LStr jsstring | LRooms "room list"

text \<open>Everything a handler does besides updating the component state, in program order.\<close>

datatype effect =
    PreventDefault
  | Emit client_event
  | ScrollIntoView
  | ConsoleLog "logarg list"
  | ToastSuccess jsstring
  | Navigate jsstring

fun emitted :: "effect list \<Rightarrow> client_event list" where
  "emitted [] = []"
| "emitted (Emit e # fx) = e # emitted fx"
| "emitted (_ # fx) = emitted fx"

fun navigations :: "effect list \<Rightarrow> jsstring list" where
  "navigations [] = []"
| "navigations (Navigate p # fx) = p # navigations fx"
| "navigations (_ # fx) = navigations fx"

fun isSend :: "client_event \<Rightarrow> bool" where
  "isSend (EmitQuestion _ _) = True"
| "isSend (EmitResponse _ _) = True"
| "isSend _ = False"

section \<open>The Chat component\<close>

text \<open>
  The state of one mounted \<open>Chat\<close>: the route parameter \<open>roomId\<close> and the three
  \<open>useState\<close> cells \<open>chat\<close>, \<open>message\<close> and \<open>isTyping\<close>.
\<close>

record chat_state =
  roomId :: jsstring
  chat :: "chat_entry list"
  message :: jsstring
  isTyping :: bool

definition Chat :: "jsstring \<Rightarrow> chat_state \<times> effect list" where
  "Chat r = (\<lparr>roomId = r, chat = [], message = [], isTyping = False\<rparr>,
             [Emit (EmitGetMessages r)])"

definition handleChatHistory :: "chat_entry list \<Rightarrow> chat_state \<Rightarrow> chat_state \<times> effect list" where
  "handleChatHistory messages st = (st\<lparr>chat := messages\<rparr>, [ScrollIntoView])"

definition handleQuestion :: "jsstring \<Rightarrow> jsstring \<Rightarrow> chat_state \<Rightarrow> chat_state \<times> effect list" where
  "handleQuestion receivedRoomId msg st =
     (if receivedRoomId = roomId st
      then (st\<lparr>chat := chat st @ [\<lparr>role = asker, entry_message = msg\<rparr>]\<rparr>, [ScrollIntoView])
      else (st, []))"

definition handleResponse :: "jsstring \<Rightarrow> jsstring \<Rightarrow> chat_state \<Rightarrow> chat_state \<times> effect list" where
  "handleResponse receivedRoomId msg st =
     (if receivedRoomId = roomId st
      then (st\<lparr>chat := chat st @ [\<lparr>role = responder, entry_message = msg\<rparr>]\<rparr>, [ScrollIntoView])
      else (st, []))"

text \<open>
  The parameter of \<open>handleRoomDeleted\<close> is destructured as \<open>{ roomId }\<close>: inside the
  handler the name is the payload's room id, and the bound room is not read.
\<close>

definition deletedText :: "jsstring \<Rightarrow> jsstring" where
  "deletedText r = ascii ''Room '' @ r @ ascii '' has been deleted''"

definition handleRoomDeleted :: "jsstring \<Rightarrow> chat_state \<Rightarrow> chat_state \<times> effect list" where
  "handleRoomDeleted payloadRoomId st =
     (st, [ConsoleLog [LStr (deletedText payloadRoomId)],
           ToastSuccess (deletedText payloadRoomId),
           Navigate (ascii ''/'')])"

definition handleTyping :: "chat_state \<Rightarrow> chat_state \<times> effect list" where
  "handleTyping st = (st\<lparr>isTyping := True\<rparr>, [])"

definition handleStopTyping :: "chat_state \<Rightarrow> chat_state \<times> effect list" where
  "handleStopTyping st = (st\<lparr>isTyping := False\<rparr>, [])"

text \<open>
  The handlers registered on the socket while the component is mounted. The component
  registers nothing for \<open>roomsList\<close> and \<open>getRooms\<close>.
\<close>

fun chat_on :: "server_event \<Rightarrow> chat_state \<Rightarrow> chat_state \<times> effect list" where
  "chat_on (ChatHistory messages) st = handleChatHistory messages st"
| "chat_on (Question r msg) st = handleQuestion r msg st"
| "chat_on (Response r msg) st = handleResponse r msg st"
| "chat_on (RoomDeleted r) st = handleRoomDeleted r st"
| "chat_on Typing st = handleTyping st"
| "chat_on StopTyping st = handleStopTyping st"
| "chat_on (RoomsList rs) st = (st, [])"
| "chat_on GetRooms st = (st, [])"

text \<open>Events are applied one at a time, in the order the socket delivers them.\<close>

fun chat_run :: "server_event list \<Rightarrow> chat_state \<Rightarrow> chat_state \<times> effect list" where
  "chat_run [] st = (st, [])"
| "chat_run (e # es) st =
     (case chat_on e st of (st', fx) \<Rightarrow>
        (case chat_run es st' of (st'', fx') \<Rightarrow> (st'', fx @ fx')))"

text \<open>
  \<open>sendMessage\<close> is the submit handler of the form; \<open>pathname\<close> is
  \<open>window.location.pathname\<close> at the time of the submit.
\<close>

definition sendMessage :: "jsstring \<Rightarrow> chat_state \<Rightarrow> chat_state \<times> effect list" where
  "sendMessage pathname st =
     (if truthy (trim (message st))
      then let role = (if includes_js pathname (ascii ''/chat/'') then responder else asker)
           in (st\<lparr>message := []\<rparr>,
               [PreventDefault,
                Emit ((if role = responder then EmitResponse else EmitQuestion)
                        (roomId st) (message st)),
                Emit (EmitStopTyping (roomId st))])
      else (st, [PreventDefault]))"

definition handleInputChange :: "jsstring \<Rightarrow> chat_state \<Rightarrow> chat_state \<times> effect list" where
  "handleInputChange v st = (st\<lparr>message := v\<rparr>, [Emit (EmitTyping (roomId st))])"

section \<open>The Responder component\<close>

text \<open>
  \<open>activeRooms\<close> is a plain object used as a dictionary; the model keeps its own
  enumerable properties, the ones \<open>Object.keys\<close> lists, as a map from key to value.
\<close>

type_synonym jsobject = "jsstring \<rightharpoonup> jsstring"

text \<open>
  The assignment \<open>acc[k] = v\<close> on an object made by the literal \<open>{}\<close>, for a string
  \<open>v\<close>. The key \<open>__proto__\<close> is an accessor that the object inherits from
  \<open>Object.prototype\<close>: assigning to it runs the inherited setter, which ignores a value
  that is neither an object nor null, and the object gets no own property. Every other
  key is absent from the prototype chain or a writable data property there, and the
  assignment creates or overwrites an own property.
\<close>

definition assignProp :: "jsobject \<Rightarrow> jsstring \<Rightarrow> jsstring \<Rightarrow> jsobject" where
  "assignProp acc k v = (if k = ascii ''__proto__'' then acc else acc(k \<mapsto> v))"

text \<open>
  The object literal \<open>{ ...prev, [k]: v }\<close>: the spread copies the own enumerable
  properties of \<open>prev\<close>, and a computed key defines an own property whatever the key is.
\<close>

definition spreadWith :: "jsobject \<Rightarrow> jsstring \<Rightarrow> jsstring \<Rightarrow> jsobject" where
  "spreadWith prev k v = prev(k \<mapsto> v)"

record responder_state =
  activeRooms :: jsobject

definition Responder :: "responder_state \<times> effect list" where
  "Responder = (\<lparr>activeRooms = Map.empty\<rparr>, [Emit EmitGetRooms])"

text \<open>The \<open>reduce\<close> of the \<open>roomsList\<close> handler, starting from \<open>{}\<close>.\<close>

definition formattedRooms :: "room list \<Rightarrow> jsobject" where
  "formattedRooms roomsList =
     foldl (\<lambda>acc room. assignProp acc (room_id room) (latestMessage room)) Map.empty roomsList"

definition handleRoomsList :: "room list \<Rightarrow> responder_state \<Rightarrow> responder_state \<times> effect list" where
  "handleRoomsList roomsList st =
     (st\<lparr>activeRooms := formattedRooms roomsList\<rparr>,
      [ConsoleLog [LStr (ascii ''Received rooms list:''), LRooms roomsList]])"

definition handleQuestion_Responder ::
  "jsstring \<Rightarrow> jsstring \<Rightarrow> responder_state \<Rightarrow> responder_state \<times> effect list" where
  "handleQuestion_Responder r msg st =
     (st\<lparr>activeRooms := spreadWith (activeRooms st) r msg\<rparr>,
      [ConsoleLog [LStr (ascii ''Received question:''), LStr msg]])"

text \<open>
  The handlers the component registers: \<open>roomsList\<close>, \<open>question\<close> and \<open>getRooms\<close>.
  Nothing is registered for \<open>roomDeleted\<close> or any other event, so the socket delivers
  those to no one while the dashboard is mounted.
\<close>

fun responder_on :: "server_event \<Rightarrow> responder_state \<Rightarrow> responder_state \<times> effect list" where
  "responder_on (RoomsList roomsList) st = handleRoomsList roomsList st"
| "responder_on (Question r msg) st = handleQuestion_Responder r msg st"
| "responder_on GetRooms st = (st, [Emit EmitGetRooms])"
| "responder_on (ChatHistory messages) st = (st, [])"
| "responder_on (Response r msg) st = (st, [])"
| "responder_on (RoomDeleted r) st = (st, [])"
| "responder_on Typing st = (st, [])"
| "responder_on StopTyping st = (st, [])"

definition deleteRoom :: "jsstring \<Rightarrow> effect list" where
  "deleteRoom r = [ConsoleLog [LStr (ascii ''Deleting room: '' @ r)], Emit (EmitDeleteRoom r)]"

section \<open>Reading a run of events\<close>

text \<open>
  The message-appended deltas are the \<open>question\<close> and \<open>response\<close> events; each carries
  the room it is for and the text, and stands for one entry of the chat.
\<close>

fun isDeltaFor :: "jsstring \<Rightarrow> server_event \<Rightarrow> bool" where
  "isDeltaFor r (Question r' msg) = (r' = r)"
| "isDeltaFor r (Response r' msg) = (r' = r)"
| "isDeltaFor r _ = False"

fun deltaEntries :: "server_event list \<Rightarrow> chat_entry list" where
  "deltaEntries [] = []"
| "deltaEntries (Question r msg # es) = \<lparr>role = asker, entry_message = msg\<rparr> # deltaEntries es"
| "deltaEntries (Response r msg # es) = \<lparr>role = responder, entry_message = msg\<rparr> # deltaEntries es"
| "deltaEntries (_ # es) = deltaEntries es"

section \<open>Sending\<close>

lemma sendMessage_blank:
  "trim (message st) = [] \<Longrightarrow> sendMessage pathname st = (st, [PreventDefault])"
  by (simp add: sendMessage_def truthy_def)

lemma sendMessage_nonblank:
  "trim (message st) \<noteq> [] \<Longrightarrow>
   sendMessage pathname st =
     (st\<lparr>message := []\<rparr>,
      [PreventDefault,
       Emit (if includes_js pathname (ascii ''/chat/'')
             then EmitResponse (roomId st) (message st)
             else EmitQuestion (roomId st) (message st)),
       Emit (EmitStopTyping (roomId st))])"
  by (simp add: sendMessage_def truthy_def Let_def)

lemma emitted_sendMessage_blank:
  "trim (message st) = [] \<Longrightarrow> emitted (snd (sendMessage pathname st)) = []"
  by (simp add: sendMessage_blank)

lemma emitted_sendMessage_nonblank:
  "trim (message st) \<noteq> [] \<Longrightarrow>
   emitted (snd (sendMessage pathname st)) =
     [if includes_js pathname (ascii ''/chat/'')
      then EmitResponse (roomId st) (message st)
      else EmitQuestion (roomId st) (message st),
      EmitStopTyping (roomId st)]"
  by (simp add: sendMessage_nonblank)

text \<open>
  C1. When the pending input trims to the empty string, submitting the form emits
  nothing on the socket and returns the component state as it was, the pending input
  included. A \<open>question\<close> or \<open>response\<close> event is emitted exactly when the trimmed input
  is not empty.
\<close>

theorem blank_input_sends_nothing:
  "(trim (message st) = [] \<longrightarrow>
      fst (sendMessage pathname st) = st \<and> emitted (snd (sendMessage pathname st)) = [])
   \<and> ((\<exists>e \<in> set (emitted (snd (sendMessage pathname st))). isSend e) \<longleftrightarrow>
        trim (message st) \<noteq> [])"
proof (cases "trim (message st) = []")
  case True
  then show ?thesis by (simp add: sendMessage_blank)
next
  case False
  then show ?thesis by (simp add: emitted_sendMessage_nonblank)
qed

theorem blank_input_sends_nothing_witness:
  "trim (ascii ''   '') = []
   \<and> fst (sendMessage (ascii ''/user/room-1'')
        \<lparr>roomId = ascii ''room-1'', chat = [], message = ascii ''   '', isTyping = False\<rparr>)
     = \<lparr>roomId = ascii ''room-1'', chat = [], message = ascii ''   '', isTyping = False\<rparr>
   \<and> emitted (snd (sendMessage (ascii ''/user/room-1'')
        \<lparr>roomId = ascii ''room-1'', chat = [], message = ascii ''   '', isTyping = False\<rparr>)) = []"
  using blank_input_sends_nothing
    [of "\<lparr>roomId = ascii ''room-1'', chat = [], message = ascii ''   '', isTyping = False\<rparr>"
        "ascii ''/user/room-1''"]
  by (simp add: ascii_def trim_def isTrimmed_def isWhiteSpace_def)

section \<open>Applying the pushed events\<close>

lemma chat_on_roomId: "roomId (fst (chat_on e st)) = roomId st"
  by (cases e)
     (simp_all add: handleChatHistory_def handleQuestion_def handleResponse_def
        handleRoomDeleted_def handleTyping_def handleStopTyping_def)

lemma chat_on_delta:
  "isDeltaFor (roomId st) e \<Longrightarrow>
   fst (chat_on e st) = st\<lparr>chat := chat st @ deltaEntries [e]\<rparr>"
  by (cases e) (simp_all add: handleQuestion_def handleResponse_def)

lemma deltaEntries_Cons:
  "isDeltaFor r e \<Longrightarrow> deltaEntries (e # es) = deltaEntries [e] @ deltaEntries es"
  by (cases e) simp_all

lemma deltaEntries_length:
  "\<forall>e\<in>set es. isDeltaFor r e \<Longrightarrow> length (deltaEntries es) = length es"
proof (induction es)
  case Nil
  then show ?case by simp
next
  case (Cons e es)
  then have "isDeltaFor r e" by simp
  then have "length (deltaEntries [e]) = 1" by (cases e) simp_all
  with Cons show ?case by (simp add: deltaEntries_Cons [of r e es])
qed

lemma chat_run_Cons: "fst (chat_run (e # es) st) = fst (chat_run es (fst (chat_on e st)))"
  by (simp split: prod.splits)

text \<open>
  C2. A run of \<open>question\<close> and \<open>response\<close> events, all for the bound room, leaves the
  chat equal to the chat held before followed by one entry for each event, in the order
  of arrival: nothing held before moves or disappears, and equal contents are kept as
  separate entries, so the chat grows by exactly the number of events.
\<close>

theorem deltas_append_in_arrival_order:
  "\<forall>e\<in>set es. isDeltaFor (roomId st) e \<Longrightarrow>
   chat (fst (chat_run es st)) = chat st @ deltaEntries es
   \<and> length (chat (fst (chat_run es st))) = length (chat st) + length es"
proof (induction es arbitrary: st)
  case Nil
  then show ?case by simp
next
  case (Cons e es)
  let ?st' = "fst (chat_on e st)"
  from Cons.prems have d: "isDeltaFor (roomId st) e" by simp
  then have st': "?st' = st\<lparr>chat := chat st @ deltaEntries [e]\<rparr>" by (rule chat_on_delta)
  then have r: "roomId ?st' = roomId st" by simp
  from Cons.prems have "\<forall>x\<in>set es. isDeltaFor (roomId ?st') x" by (simp add: r)
  then have ih: "chat (fst (chat_run es ?st')) = chat ?st' @ deltaEntries es"
    by (rule Cons.IH [THEN conjunct1])
  have c: "chat ?st' = chat st @ deltaEntries [e]" by (simp add: st')
  have 1: "chat (fst (chat_run (e # es) st)) = chat st @ deltaEntries (e # es)"
    by (simp only: chat_run_Cons ih c deltaEntries_Cons [OF d, of es] append_assoc)
  have "length (deltaEntries (e # es)) = length (e # es)"
    using Cons.prems by (rule deltaEntries_length)
  with 1 show ?case by simp
qed

theorem deltas_append_in_arrival_order_witness:
  "chat (fst (chat_run
      [Question (ascii ''r1'') (ascii ''hi''), Response (ascii ''r1'') (ascii ''yo''),
       Question (ascii ''r1'') (ascii ''hi'')]
      \<lparr>roomId = ascii ''r1'',
       chat = [\<lparr>role = responder, entry_message = ascii ''old''\<rparr>],
       message = [], isTyping = False\<rparr>))
   = [\<lparr>role = responder, entry_message = ascii ''old''\<rparr>,
      \<lparr>role = asker, entry_message = ascii ''hi''\<rparr>,
      \<lparr>role = responder, entry_message = ascii ''yo''\<rparr>,
      \<lparr>role = asker, entry_message = ascii ''hi''\<rparr>]"
  using deltas_append_in_arrival_order
    [of "[Question (ascii ''r1'') (ascii ''hi''), Response (ascii ''r1'') (ascii ''yo''),
          Question (ascii ''r1'') (ascii ''hi'')]"
        "\<lparr>roomId = ascii ''r1'',
          chat = [\<lparr>role = responder, entry_message = ascii ''old''\<rparr>],
          message = [], isTyping = False\<rparr>"]
  by simp

section \<open>Cross-room events\<close>

text \<open>
  C10. A \<open>question\<close> or \<open>response\<close> event whose room id is not the bound room changes
  nothing: the whole component state is returned as it was, and no effect is produced.
\<close>

theorem other_room_delta_ignored:
  "r \<noteq> roomId st \<Longrightarrow>
   chat_on (Question r msg) st = (st, []) \<and> chat_on (Response r msg) st = (st, [])"
  by (simp add: handleQuestion_def handleResponse_def)

theorem other_room_delta_ignored_witness:
  "ascii ''r2'' \<noteq> ascii ''r1''
   \<and> chat_on (Question (ascii ''r2'') (ascii ''hi''))
        \<lparr>roomId = ascii ''r1'', chat = [\<lparr>role = asker, entry_message = ascii ''a''\<rparr>],
         message = ascii ''x'', isTyping = True\<rparr>
     = (\<lparr>roomId = ascii ''r1'', chat = [\<lparr>role = asker, entry_message = ascii ''a''\<rparr>],
         message = ascii ''x'', isTyping = True\<rparr>, [])
   \<and> chat_on (Response (ascii ''r2'') (ascii ''hi''))
        \<lparr>roomId = ascii ''r1'', chat = [\<lparr>role = asker, entry_message = ascii ''a''\<rparr>],
         message = ascii ''x'', isTyping = True\<rparr>
     = (\<lparr>roomId = ascii ''r1'', chat = [\<lparr>role = asker, entry_message = ascii ''a''\<rparr>],
         message = ascii ''x'', isTyping = True\<rparr>, [])"
proof -
  have h: "ascii ''r2'' \<noteq> roomId
      \<lparr>roomId = ascii ''r1'', chat = [\<lparr>role = asker, entry_message = ascii ''a''\<rparr>],
       message = ascii ''x'', isTyping = True\<rparr>"
    by (simp add: ascii_def)
  show ?thesis
    using h other_room_delta_ignored [OF h, of "ascii ''hi''"] by simp
qed

section \<open>The history snapshot\<close>

text \<open>
  C5. After a \<open>chatHistory\<close> event the chat is the list the event carries. The list held
  before plays no part in the result: two states that differ only in their chat end in
  the same state. The room, the pending input and the typing flag are kept.
\<close>

theorem history_replaces_chat:
  "chat (fst (handleChatHistory messages st)) = messages
   \<and> fst (handleChatHistory messages (st\<lparr>chat := old\<rparr>)) = fst (handleChatHistory messages st)
   \<and> roomId (fst (handleChatHistory messages st)) = roomId st
   \<and> message (fst (handleChatHistory messages st)) = message st
   \<and> isTyping (fst (handleChatHistory messages st)) = isTyping st"
  by (simp add: handleChatHistory_def)

text \<open>
  C9. The \<open>chatHistory\<close> handler receives the list alone and compares nothing with the
  bound room: whatever room the component is bound to, the event makes the chat equal
  to the payload, and the binding stays what it was.
\<close>

theorem history_applied_for_any_bound_room:
  "chat_on (ChatHistory messages) (st\<lparr>roomId := R\<rparr>)
   = (st\<lparr>roomId := R, chat := messages\<rparr>, [ScrollIntoView])"
  by (simp add: handleChatHistory_def)

section \<open>Room deletion\<close>

text \<open>
  C3. A component bound to \<open>room-a\<close> that receives the deletion notification of
  \<open>room-b\<close> navigates to \<open>/\<close>: \<open>handleRoomDeleted\<close> does not compare the room id of the
  notification with the bound room, as \<open>handleQuestion\<close> and \<open>handleResponse\<close> do.
\<close>

theorem roomDeleted_of_other_room_navigates:
  "ascii ''room-b'' \<noteq> roomId
      \<lparr>roomId = ascii ''room-a'', chat = [], message = [], isTyping = False\<rparr>
   \<and> navigations (snd (chat_on (RoomDeleted (ascii ''room-b''))
        \<lparr>roomId = ascii ''room-a'', chat = [], message = [], isTyping = False\<rparr>))
     = [ascii ''/'']"
  by (simp add: handleRoomDeleted_def ascii_def)

section \<open>The role of a send\<close>

text \<open>
  C4. When the trimmed input is not empty, the submit emits exactly one send event, and
  the path alone chooses which: a \<open>response\<close> when the path contains \<open>/chat/\<close>, a
  \<open>question\<close> otherwise. Both carry the bound room and the input as typed.
\<close>

theorem send_role_from_path:
  "trim (message st) \<noteq> [] \<Longrightarrow>
   filter isSend (emitted (snd (sendMessage pathname st)))
   = [if includes_js pathname (ascii ''/chat/'')
      then EmitResponse (roomId st) (message st)
      else EmitQuestion (roomId st) (message st)]"
  by (simp add: emitted_sendMessage_nonblank)

theorem send_role_from_path_witness:
  "trim (ascii ''hi'') \<noteq> []
   \<and> filter isSend (emitted (snd (sendMessage (ascii ''/chat/r1'')
        \<lparr>roomId = ascii ''r1'', chat = [], message = ascii ''hi'', isTyping = False\<rparr>)))
     = [EmitResponse (ascii ''r1'') (ascii ''hi'')]
   \<and> filter isSend (emitted (snd (sendMessage (ascii ''/user/r1'')
        \<lparr>roomId = ascii ''r1'', chat = [], message = ascii ''hi'', isTyping = False\<rparr>)))
     = [EmitQuestion (ascii ''r1'') (ascii ''hi'')]"
proof -
  have h: "trim (message
      \<lparr>roomId = ascii ''r1'', chat = [], message = ascii ''hi'', isTyping = False\<rparr>) \<noteq> []"
    by (simp add: ascii_def trim_def isTrimmed_def isWhiteSpace_def isLineTerminator_def)
  have p1: "includes_js (ascii ''/chat/r1'') (ascii ''/chat/'')"
    by (simp add: ascii_def startsAt_def)
  have p2: "\<not> includes_js (ascii ''/user/r1'') (ascii ''/chat/'')"
    by (simp add: ascii_def startsAt_def)
  show ?thesis
    using h send_role_from_path [OF h, of "ascii ''/chat/r1''"]
      send_role_from_path [OF h, of "ascii ''/user/r1''"]
    by (simp add: p1 p2)
qed

text \<open>
  C6. When the trimmed input is not empty, the socket emissions of the submit are the
  send event and, right after it, \<open>stopTyping\<close> for the bound room.
\<close>

theorem send_then_stopTyping:
  "trim (message st) \<noteq> [] \<Longrightarrow>
   \<exists>e. isSend e \<and> emitted (snd (sendMessage pathname st)) = [e, EmitStopTyping (roomId st)]"
  by (simp add: emitted_sendMessage_nonblank)

theorem send_then_stopTyping_witness:
  "trim (ascii ''hi'') \<noteq> []
   \<and> (\<exists>e. isSend e \<and> emitted (snd (sendMessage (ascii ''/user/r1'')
        \<lparr>roomId = ascii ''r1'', chat = [], message = ascii ''hi'', isTyping = False\<rparr>))
       = [e, EmitStopTyping (ascii ''r1'')])"
proof -
  have h: "trim (message
      \<lparr>roomId = ascii ''r1'', chat = [], message = ascii ''hi'', isTyping = False\<rparr>) \<noteq> []"
    by (simp add: ascii_def trim_def isTrimmed_def isWhiteSpace_def isLineTerminator_def)
  show ?thesis
    using h send_then_stopTyping [OF h, of "ascii ''/user/r1''"] by simp
qed

section \<open>The directory of the dashboard\<close>

lemma foldl_assignProp:
  "foldl (\<lambda>acc room. assignProp acc (room_id room) (latestMessage room)) m rs k =
     (if k = ascii ''__proto__'' then m k
      else (m ++ map_of (rev (map (\<lambda>room. (room_id room, latestMessage room)) rs))) k)"
proof (induction rs arbitrary: m)
  case Nil
  then show ?case by simp
next
  case (Cons room rs)
  let ?F = "\<lambda>acc room. assignProp acc (room_id room) (latestMessage room)"
  let ?m = "assignProp m (room_id room) (latestMessage room)"
  let ?X = "map_of (rev (map (\<lambda>room. (room_id room, latestMessage room)) rs))"
  have "foldl ?F m (room # rs) k = foldl ?F ?m rs k"
    by simp
  also have "\<dots> = (if k = ascii ''__proto__'' then ?m k else (?m ++ ?X) k)"
    by (rule Cons.IH)
  also have "\<dots> = (if k = ascii ''__proto__'' then m k
      else (m ++ map_of (rev (map (\<lambda>room. (room_id room, latestMessage room)) (room # rs)))) k)"
    by (simp add: assignProp_def map_add_def split: option.splits)
  finally show ?case .
qed

lemma formattedRooms_lookup:
  "formattedRooms rs k =
     (if k = ascii ''__proto__'' then None
      else map_of (rev (map (\<lambda>room. (room_id room, latestMessage room)) rs)) k)"
  by (simp add: formattedRooms_def foldl_assignProp)

text \<open>
  C7. The dashboard starts with no room. A rooms list whose only entry has the id
  \<open>__proto__\<close> leaves the directory empty: the \<open>reduce\<close> stores each entry by plain
  assignment, and the assignment to that key creates no property.
\<close>

theorem roomsList_entry_lost:
  "activeRooms (fst Responder) = Map.empty
   \<and> activeRooms (fst (handleRoomsList
        [\<lparr>room_id = ascii ''__proto__'', latestMessage = ascii ''hi''\<rparr>] (fst Responder)))
       (ascii ''__proto__'') = None"
  by (simp add: Responder_def handleRoomsList_def formattedRooms_def assignProp_def)

text \<open>
  C8. A \<open>question\<close> event stores its text under its room id, whether or not the id was
  present, and leaves the entry of every other room as it was; the set of listed rooms
  grows by at most that id. A \<open>roomDeleted\<close> notification has no handler on the
  dashboard and leaves the directory as it was, for a listed room as for an unknown one.
\<close>

theorem directory_incremental_update:
  "activeRooms (fst (responder_on (Question r msg) st)) r = Some msg
   \<and> (\<forall>r'. r' \<noteq> r \<longrightarrow>
         activeRooms (fst (responder_on (Question r msg) st)) r' = activeRooms st r')
   \<and> dom (activeRooms (fst (responder_on (Question r msg) st))) = insert r (dom (activeRooms st))
   \<and> responder_on (RoomDeleted r) st = (st, [])"
  by (simp add: handleQuestion_Responder_def spreadWith_def)

theorem directory_incremental_update_witness:
  "activeRooms (fst (responder_on (Question (ascii ''r2'') (ascii ''new''))
       \<lparr>activeRooms = [ascii ''r1'' \<mapsto> ascii ''a'', ascii ''r2'' \<mapsto> ascii ''b'']\<rparr>)) (ascii ''r2'')
     = Some (ascii ''new'')
   \<and> ascii ''r1'' \<noteq> ascii ''r2''
   \<and> activeRooms (fst (responder_on (Question (ascii ''r2'') (ascii ''new''))
       \<lparr>activeRooms = [ascii ''r1'' \<mapsto> ascii ''a'', ascii ''r2'' \<mapsto> ascii ''b'']\<rparr>)) (ascii ''r1'')
     = Some (ascii ''a'')
   \<and> responder_on (RoomDeleted (ascii ''r3''))
       \<lparr>activeRooms = [ascii ''r1'' \<mapsto> ascii ''a'', ascii ''r2'' \<mapsto> ascii ''b'']\<rparr>
     = (\<lparr>activeRooms = [ascii ''r1'' \<mapsto> ascii ''a'', ascii ''r2'' \<mapsto> ascii ''b'']\<rparr>, [])"
proof -
  have h: "ascii ''r1'' \<noteq> ascii ''r2''" by (simp add: ascii_def)
  show ?thesis
    using h directory_incremental_update
      [of "ascii ''r2''" "ascii ''new''"
          "\<lparr>activeRooms = [ascii ''r1'' \<mapsto> ascii ''a'', ascii ''r2'' \<mapsto> ascii ''b'']\<rparr>"]
    by simp
qed

end
